theory Spec2Isabelle
  imports Complex_Main "HOL-Library.Word"
begin

unbundle bit_operations_syntax

section \<open>The MIDI input port of webmidi (src/Input.js)\<close>

text \<open>
  The class \<open>Input\<close> of src/Input.js is embedded as pure functions over an explicit
  port state. What a method does to the outside world (emitting an event through the
  port's registry, handing an event to a channel, calling a forwarder, printing a
  warning, calling the transport) is returned as a list of effects, in the order the
  source performs them. An exception of the source is a value of type \<open>error\<close>.

  Callbacks of listeners, the channel assembler behind
  \<open>InputChannel._processMidiMessageEvent\<close> and \<open>Forwarder.forward\<close> are collaborators:
  the model records that they are called and with what, and takes them to return
  normally.
\<close>

subsection \<open>Data\<close>

type_synonym byte = "8 word"
type_synonym timestamp = real
type_synonym callback = nat
type_synonym jsref = nat
type_synonym forwarder = nat

text \<open>A JavaScript exception raised by the code of the port itself.\<close>

datatype error =
    TypeError
  | ValidationError
  | ChannelsUndefinedError

text \<open>A JavaScript number that results from \<open>x + 1\<close>: \<open>undefined + 1\<close> is \<open>NaN\<close>.\<close>

datatype jsnumber = Number int | NaN

text \<open>
  The \<open>MIDIInput\<close> object of the transport, which is also the \<open>port\<close> of a
  state-change notification. The two handler slots hold whether a handler is installed.
\<close>

record midi_port =
  connection :: string
  port_id :: string
  manufacturer :: string
  port_name :: string
  port_state :: string
  port_type :: string
  onstatechange :: bool
  onmidimessage :: bool

text \<open>The object literal assigned to \<open>event.target\<close> of a \<open>disconnected\<close> event.\<close>

record snapshot =
  snap_connection :: string
  snap_id :: string
  snap_manufacturer :: string
  snap_name :: string
  snap_state :: string
  snap_type :: string

datatype target = This | Snapshot snapshot

text \<open>
  A decoded message, with the fields that \<open>Input\<close> reads. \<open>type\<close> is a string or
  \<open>undefined\<close> (\<open>None\<close>); \<open>channel\<close> is 0 for a system message.
\<close>

record message =
  data :: "byte list"
  dataBytes :: "byte list"
  isChannelMessage :: bool
  isSystemMessage :: bool
  channel :: nat
  type :: "string option"

text \<open>
  The event objects built by \<open>_onStateChange\<close> (three fields) and by
  \<open>_onMidiMessage\<close> (the same three and the message with its deprecated mirrors);
  \<open>song\<close> is the property that \<open>_parseEvent\<close> adds, absent (\<open>None\<close>) otherwise.
\<close>

record event =
  ev_timestamp :: timestamp
  ev_target :: target
  ev_type :: string

record midi_event = event +
  ev_message :: message
  ev_data :: "byte list"
  ev_rawData :: "byte list"
  ev_statusByte :: "byte option"
  ev_dataBytes :: "byte list"
  ev_song :: "jsnumber option"

datatype payload = PortEvent event | MidiEvent midi_event

datatype effect =
    Emit string payload
  | ProcessMidiMessageEvent nat midi_event
  | Forward forwarder message
  | Warn string string
  | ChannelDestroy nat
  | TransportClose

text \<open>What the transport hands to \<open>onmidimessage\<close>.\<close>

record midi_message_event =
  e_data :: "byte list"
  timeStamp :: timestamp

subsection \<open>Listeners and registries\<close>

text \<open>The \<open>options\<close> argument of the subscription methods.\<close>

record options =
  opt_channels :: "int list option"
  opt_context :: "jsref option"
  opt_remaining :: "nat option"
  opt_duration :: "nat option"
  opt_prepend :: bool
  opt_arguments :: "jsref list"

datatype emitter = PortEmitter | ChannelEmitter nat

record listener =
  l_event :: string
  l_target :: emitter
  l_callback :: callback
  l_options :: options

type_synonym registry = "listener list"

text \<open>
  Modelled from the spec: the subscription registry that \<open>Input\<close> and \<open>InputChannel\<close>
  inherit from the event emitter (djipevents, not under src/). A registry holds its
  listeners in invocation order. Adding creates one listener from the event name, the
  callback and the options and inserts it first or last (spec 3, Listener: insertion
  order prepend or append).
\<close>

definition registry_addListener ::
  "emitter \<Rightarrow> registry \<Rightarrow> string \<Rightarrow> callback \<Rightarrow> options \<Rightarrow> listener \<times> registry" where
  "registry_addListener tgt reg ev cb opts =
     (let l = \<lparr>l_event = ev, l_target = tgt, l_callback = cb, l_options = opts\<rparr>
      in (l, if opt_prepend opts then l # reg else reg @ [l]))"

text \<open>
  Modelled from the spec: \<open>hasListener(event, callback)\<close> of a registry holds when the
  registry has a matching listener, one of that event name and that callback (spec 4.4).
\<close>

definition registry_hasListener :: "registry \<Rightarrow> string \<Rightarrow> callback \<Rightarrow> bool" where
  "registry_hasListener reg ev cb =
     list_ex (\<lambda>l. l_event l = ev \<and> l_callback l = cb) reg"

text \<open>
  Modelled from the spec: which listeners \<open>removeListener\<close> of a registry removes
  (djipevents, not under src/; spec 4.4). With no event name it clears the registry; with an event name and no callback it clears the
  listeners of that name; a callback, a context and a remaining count each narrow the
  removal to the listeners that match every criterion supplied.
\<close>

definition removal_matches ::
  "string \<Rightarrow> callback option \<Rightarrow> options \<Rightarrow> listener \<Rightarrow> bool" where
  "removal_matches ev cb opts l =
     (l_event l = ev
      \<and> (case cb of None \<Rightarrow> True | Some c \<Rightarrow> l_callback l = c)
      \<and> (case opt_context opts of None \<Rightarrow> True
          | Some c \<Rightarrow> opt_context (l_options l) = Some c)
      \<and> (case opt_remaining opts of None \<Rightarrow> True
          | Some r \<Rightarrow> opt_remaining (l_options l) = Some r))"

text \<open>
  Modelled from the spec: \<open>removeListener\<close> of a registry, with the criteria above.
\<close>

definition registry_removeListener ::
  "registry \<Rightarrow> string option \<Rightarrow> callback option \<Rightarrow> options \<Rightarrow> registry" where
  "registry_removeListener reg event cb opts =
     (case event of
        None \<Rightarrow> []
      | Some ev \<Rightarrow> filter (\<lambda>l. \<not> removal_matches ev cb opts l) reg)"

text \<open>
  An \<open>InputChannel\<close>, as far as \<open>Input\<close> uses it: its number and its own registry.
\<close>

record input_channel =
  number :: nat
  ch_listeners :: registry

text \<open>
  The state of an \<open>Input\<close>. \<open>channels\<close> is the sparse JavaScript array: index 0 and
  every index the constructor did not fill are \<open>undefined\<close> (\<open>None\<close>). \<open>listeners\<close>
  is the port's own (inherited) registry; \<open>validation\<close> is the flag
  \<open>WebMidi.validation\<close>.
\<close>

record input =
  midiInput :: "midi_port option"
  octaveOffset :: int
  channels :: "nat \<Rightarrow> input_channel option"
  forwarders :: "forwarder list"
  listeners :: registry
  validation :: bool

subsection \<open>Decoding, tables and helpers that are not in src/Input.js\<close>

text \<open>
  Modelled from the spec: the decoding done by the constructor \<open>Message\<close> (WebMidi.js,
  not under src/), after spec 4.1. A status byte in 0x80..0xEF gives a channel message on channel
  \<open>(status AND 0x0F) + 1\<close>, its kind taken from the high nibble; the listed system
  status bytes give their kind; any other status byte gives a system message of the
  "unknown" kind, which is a \<open>type\<close> that is \<open>undefined\<close>. The data bytes are the bytes
  after the status byte. A frame with no byte has no status byte to recognise and
  decodes like an unknown one (decoding never fails).
\<close>

definition channel_message_type :: "byte \<Rightarrow> string option" where
  "channel_message_type s =
     (let n = drop_bit 4 s in
      if n = 0x8 then Some ''noteoff''
      else if n = 0x9 then Some ''noteon''
      else if n = 0xA then Some ''keyaftertouch''
      else if n = 0xB then Some ''controlchange''
      else if n = 0xC then Some ''programchange''
      else if n = 0xD then Some ''channelaftertouch''
      else if n = 0xE then Some ''pitchbend''
      else None)"

text \<open>
  Modelled from the spec: the kinds of the fixed system messages and of system-exclusive
  (WebMidi.js and Enumerations.js are not under src/), after the status bytes listed in
  spec 4.1, named as the input-wide events of spec 6; every other status byte has no kind.
\<close>

definition system_message_type :: "byte \<Rightarrow> string option" where
  "system_message_type s =
     (if s = 0xF0 then Some ''sysex''
      else if s = 0xF1 then Some ''timecode''
      else if s = 0xF2 then Some ''songposition''
      else if s = 0xF3 then Some ''songselect''
      else if s = 0xF6 then Some ''tunerequest''
      else if s = 0xF8 then Some ''clock''
      else if s = 0xFA then Some ''start''
      else if s = 0xFB then Some ''continue''
      else if s = 0xFC then Some ''stop''
      else if s = 0xFE then Some ''activesensing''
      else if s = 0xFF then Some ''reset''
      else None)"

text \<open>
  Modelled from the spec: the constructor \<open>Message\<close> itself, which classifies the
  frame by its status byte as spec 4.1 says.
\<close>

definition Message :: "byte list \<Rightarrow> message" where
  "Message d =
     (case d of
        [] \<Rightarrow>
          \<lparr>data = d, dataBytes = [], isChannelMessage = False, isSystemMessage = True,
           channel = 0, type = None\<rparr>
      | s # ds \<Rightarrow>
          if 0x80 \<le> s \<and> s \<le> 0xEF then
            \<lparr>data = d, dataBytes = ds, isChannelMessage = True, isSystemMessage = False,
             channel = unat (s AND 0x0F) + 1, type = channel_message_type s\<rparr>
          else
            \<lparr>data = d, dataBytes = ds, isChannelMessage = False, isSystemMessage = True,
             channel = 0, type = system_message_type s\<rparr>)"

text \<open>
  The decimal numeral of a controller number (0 to 127), for the event names
  \<open>controlchange-0\<close> to \<open>controlchange-127\<close>.
\<close>

definition digit :: "nat \<Rightarrow> char" where
  "digit n = char_of (48 + n)"

definition decimal :: "nat \<Rightarrow> string" where
  "decimal n =
     (if n < 10 then [digit n]
      else if n < 100 then [digit (n div 10), digit (n mod 10)]
      else [digit (n div 100), digit (n div 10 mod 10), digit (n mod 10)])"

text \<open>
  Modelled from the spec: the table \<open>InputChannel.EVENTS\<close> (InputChannel.js, not under
  src/): the channel-scoped event names of spec 6, \<open>controlchange-0\<close> to
  \<open>controlchange-127\<close> among them.
\<close>

definition EVENTS :: "string list" where
  "EVENTS =
     [''noteon'', ''noteoff'', ''keyaftertouch'', ''controlchange'', ''channelaftertouch'',
      ''programchange'', ''pitchbend'', ''allnotesoff'', ''allsoundoff'', ''localcontrol'',
      ''monomode'', ''omnimode'', ''resetallcontrollers'',
      ''rpn'', ''rpn-dataentrycoarse'', ''rpn-dataentryfine'',
      ''rpn-databuttonincrement'', ''rpn-databuttondecrement'',
      ''nrpn'', ''nrpn-dataentrycoarse'', ''nrpn-dataentryfine'',
      ''nrpn-databuttonincrement'', ''nrpn-databuttondecrement'']
     @ map (\<lambda>n. ''controlchange-'' @ decimal n) [0..<128]"

text \<open>
  The constant \<open>Enumerations.MIDI_CHANNEL_NUMBERS\<close>, as the documentation of
  \<open>addListener\<close> in src/Input.js gives it (the default of \<open>options.channels\<close>).
\<close>

definition MIDI_CHANNEL_NUMBERS :: "int list" where
  "MIDI_CHANNEL_NUMBERS = [1, 2, 3, 4, 5, 6, 7, 8, 9, 10, 11, 12, 13, 14, 15, 16]"

text \<open>
  Modelled from the spec: \<open>Utilities.sanitizeChannels\<close> (Utilities.js, not under src/),
  which resolves \<open>options.channels\<close> to the channel numbers to visit. Spec 4.4: each
  entry is validated to be in 1..16, else the call fails with a validation error. The
  entries are resolved in the order given. The spec does not say what an \<open>undefined\<close>
  argument resolves to (only \<open>hasListener\<close>, with validation off, can pass one); the
  model resolves it to no channel.
\<close>

definition sanitizeChannels :: "int list option \<Rightarrow> error + nat list" where
  "sanitizeChannels arg =
     (case arg of
        None \<Rightarrow> Inr []
      | Some chs \<Rightarrow>
          if list_all (\<lambda>c. 1 \<le> c \<and> c \<le> 16) chs then Inr (map nat chs)
          else Inl ValidationError)"

subsection \<open>The methods of \<open>Input\<close>\<close>

text \<open>
  The constructor: no offset, the 16 channels at indices 1 to 16, no forwarder, no
  listener, and both handlers installed on the transport object.
\<close>

definition new_InputChannel :: "nat \<Rightarrow> input_channel" where
  "new_InputChannel i = \<lparr>number = i, ch_listeners = []\<rparr>"

definition new_Input :: "midi_port \<Rightarrow> bool \<Rightarrow> input" where
  "new_Input mi v =
     \<lparr>midiInput = Some (mi\<lparr>onstatechange := True, onmidimessage := True\<rparr>),
      octaveOffset = 0,
      channels = (\<lambda>i. if 1 \<le> i \<and> i \<le> 16 then Some (new_InputChannel i) else None),
      forwarders = [],
      listeners = [],
      validation = v\<rparr>"

text \<open>
  \<open>_onStateChange(e)\<close>, with \<open>now\<close> for \<open>WebMidi.time\<close> and \<open>port\<close> for \<open>e.port\<close>. The
  branches are tried in the order of the source.
\<close>

definition onStateChange :: "timestamp \<Rightarrow> midi_port \<Rightarrow> effect list" where
  "onStateChange now port =
     (if connection port = ''open'' then
        [Emit ''opened''
           (PortEvent \<lparr>ev_timestamp = now, ev_target = This, ev_type = ''opened''\<rparr>)]
      else if connection port = ''closed'' \<and> port_state port = ''connected'' then
        [Emit ''closed''
           (PortEvent \<lparr>ev_timestamp = now, ev_target = This, ev_type = ''closed''\<rparr>)]
      else if connection port = ''closed'' \<and> port_state port = ''disconnected'' then
        [Emit ''disconnected''
           (PortEvent
              \<lparr>ev_timestamp = now,
               ev_target = Snapshot
                 \<lparr>snap_connection = connection port, snap_id = port_id port,
                  snap_manufacturer = manufacturer port, snap_name = port_name port,
                  snap_state = port_state port, snap_type = port_type port\<rparr>,
               ev_type = ''disconnected''\<rparr>)]
      else if connection port = ''pending'' \<and> port_state port = ''disconnected'' then []
      else [Warn (connection port) (port_state port)])"

text \<open>
  \<open>_parseEvent(e)\<close>: the copy of the event takes the message's type, or
  \<open>"unknownmidimessage"\<close> when the type is falsy (\<open>undefined\<close> or the empty string);
  a \<open>songselect\<close> event gets \<open>song = e.data[1] + 1\<close>, which is \<open>NaN\<close> when the frame has
  no second byte. The sum is a JavaScript number and does not wrap.
\<close>

definition parseEvent :: "midi_event \<Rightarrow> effect list" where
  "parseEvent e =
     (let t = (case type (ev_message e) of
                 None \<Rightarrow> ''unknownmidimessage''
               | Some s \<Rightarrow> if s = [] then ''unknownmidimessage'' else s);
          event = e\<lparr>ev_type := t\<rparr>;
          event' = (if t = ''songselect''
                    then event\<lparr>ev_song :=
                           Some (if 1 < length (ev_data e)
                                 then Number (uint (ev_data e ! 1) + 1) else NaN)\<rparr>
                    else event)
      in [Emit (ev_type event') (MidiEvent event')])"

text \<open>
  \<open>_onMidiMessage(e)\<close>. The result is the effects performed, in order, and the
  exception that ended the call, if any: \<open>this.channels[message.channel]\<close> is
  \<open>undefined\<close> once \<open>destroy\<close> has emptied the array, and the method call on it raises.
\<close>

definition midimessage_event :: "midi_message_event \<Rightarrow> midi_event" where
  "midimessage_event e =
     (let message = Message (e_data e) in
      \<lparr>ev_timestamp = timeStamp e, ev_target = This, ev_type = ''midimessage'',
       ev_message = message, ev_data = data message, ev_rawData = data message,
       ev_statusByte = (case data message of [] \<Rightarrow> None | s # _ \<Rightarrow> Some s),
       ev_dataBytes = dataBytes message, ev_song = None\<rparr>)"

definition onMidiMessage :: "input \<Rightarrow> midi_message_event \<Rightarrow> effect list \<times> error option" where
  "onMidiMessage inp e =
     (let message = Message (e_data e);
          event = midimessage_event e;
          emitted = [Emit ''midimessage'' (MidiEvent event)];
          forwarded = map (\<lambda>f. Forward f message) (forwarders inp)
      in if isSystemMessage message then
           (emitted @ parseEvent event @ forwarded, None)
         else if isChannelMessage message then
           (case channels inp (channel message) of
              None \<Rightarrow> (emitted, Some TypeError)
            | Some c \<Rightarrow>
                (emitted @ [ProcessMidiMessageEvent (channel message) event] @ forwarded,
                 None))
         else (emitted @ forwarded, None))"

text \<open>
  \<open>addForwarder\<close> and \<open>removeForwarder\<close>. \<open>f\<close> is the forwarder that \<open>addForwarder\<close>
  pushes: its argument when that is a forwarder, the forwarder it constructs from its
  arguments otherwise.
\<close>

definition addForwarder :: "input \<Rightarrow> forwarder \<Rightarrow> input" where
  "addForwarder inp f = inp\<lparr>forwarders := forwarders inp @ [f]\<rparr>"

definition removeForwarder :: "input \<Rightarrow> forwarder \<Rightarrow> input" where
  "removeForwarder inp f = inp\<lparr>forwarders := filter (\<lambda>item. item \<noteq> f) (forwarders inp)\<rparr>"

text \<open>
  \<open>addListener(event, listener, options)\<close>. The legacy branch needs \<open>options\<close> to
  be a function, which the type of \<open>options\<close> excludes. A channel-scoped call returns
  an array of listeners, an input-wide call the listener itself. The result comes with
  the state the call leaves behind, also when it raises: the listeners added before a
  \<open>TypeError\<close> stay. The \<open>options\<close> object handed on to the channels is the caller's,
  with \<open>channels\<close> filled in when it was \<open>undefined\<close>.
\<close>

datatype add_result = Listeners "listener list" | OneListener listener

definition no_options :: options where
  "no_options =
     \<lparr>opt_channels = None, opt_context = None, opt_remaining = None,
      opt_duration = None, opt_prepend = False, opt_arguments = []\<rparr>"

definition default_channels :: "options \<Rightarrow> options" where
  "default_channels opts =
     (if opt_channels opts = None then opts\<lparr>opt_channels := Some MIDI_CHANNEL_NUMBERS\<rparr>
      else opts)"

fun addListener_each ::
  "(nat \<Rightarrow> input_channel option) \<Rightarrow> string \<Rightarrow> callback \<Rightarrow> options \<Rightarrow> nat list \<Rightarrow>
   listener list \<Rightarrow> (error + listener list) \<times> (nat \<Rightarrow> input_channel option)" where
  "addListener_each chans ev cb opts [] acc = (Inr acc, chans)"
| "addListener_each chans ev cb opts (ch # chs) acc =
     (case chans ch of
        None \<Rightarrow> (Inl TypeError, chans)
      | Some c \<Rightarrow>
          (case registry_addListener (ChannelEmitter (number c)) (ch_listeners c) ev cb opts of
             (l, reg) \<Rightarrow>
               addListener_each (chans(ch \<mapsto> c\<lparr>ch_listeners := reg\<rparr>)) ev cb opts chs
                 (acc @ [l])))"

definition addListener ::
  "input \<Rightarrow> string \<Rightarrow> callback \<Rightarrow> options \<Rightarrow> (error + add_result) \<times> input" where
  "addListener inp ev cb options =
     (if ev \<in> set EVENTS then
        (let options' = default_channels options in
         case sanitizeChannels (opt_channels options') of
           Inl err \<Rightarrow> (Inl err, inp)
         | Inr chs \<Rightarrow>
             (case addListener_each (channels inp) ev cb options' chs [] of
                (Inl err, chans) \<Rightarrow> (Inl err, inp\<lparr>channels := chans\<rparr>)
              | (Inr ls, chans) \<Rightarrow> (Inr (Listeners ls), inp\<lparr>channels := chans\<rparr>)))
      else
        (case registry_addListener PortEmitter (listeners inp) ev cb options of
           (l, reg) \<Rightarrow> (Inr (OneListener l), inp\<lparr>listeners := reg\<rparr>)))"

text \<open>
  \<open>hasListener(event, listener, options)\<close>. \<open>Array.every\<close> stops at the first channel
  that answers false, so a later \<open>undefined\<close> channel is not reached.
\<close>

fun every_hasListener ::
  "(nat \<Rightarrow> input_channel option) \<Rightarrow> string \<Rightarrow> callback \<Rightarrow> nat list \<Rightarrow> error + bool" where
  "every_hasListener chans ev cb [] = Inr True"
| "every_hasListener chans ev cb (ch # chs) =
     (case chans ch of
        None \<Rightarrow> Inl TypeError
      | Some c \<Rightarrow>
          if registry_hasListener (ch_listeners c) ev cb
          then every_hasListener chans ev cb chs
          else Inr False)"

definition hasListener :: "input \<Rightarrow> string \<Rightarrow> callback \<Rightarrow> options \<Rightarrow> error + bool" where
  "hasListener inp ev cb options =
     (if validation inp \<and> ev \<in> set EVENTS \<and> opt_channels options = None then
        Inl ChannelsUndefinedError
      else if ev \<in> set EVENTS then
        (case sanitizeChannels (opt_channels options) of
           Inl err \<Rightarrow> Inl err
         | Inr chs \<Rightarrow> every_hasListener (channels inp) ev cb chs)
      else Inr (registry_hasListener (listeners inp) ev cb))"

text \<open>
  \<open>removeListener(event, listener, options)\<close>; \<open>event\<close> and \<open>listener\<close> may be
  \<open>undefined\<close>. With no event the channels of the resolved set are cleared, those that
  exist, and then the port's registry. With a channel-scoped event each channel of the
  resolved set removes its matching listeners; an \<open>undefined\<close> channel raises.
\<close>

fun removeListener_all_each ::
  "(nat \<Rightarrow> input_channel option) \<Rightarrow> nat list \<Rightarrow> (nat \<Rightarrow> input_channel option)" where
  "removeListener_all_each chans [] = chans"
| "removeListener_all_each chans (ch # chs) =
     (case chans ch of
        None \<Rightarrow> removeListener_all_each chans chs
      | Some c \<Rightarrow>
          removeListener_all_each
            (chans(ch \<mapsto> c\<lparr>ch_listeners :=
                              registry_removeListener (ch_listeners c) None None no_options\<rparr>))
            chs)"

fun removeListener_each ::
  "(nat \<Rightarrow> input_channel option) \<Rightarrow> string \<Rightarrow> callback option \<Rightarrow> options \<Rightarrow> nat list \<Rightarrow>
   error option \<times> (nat \<Rightarrow> input_channel option)" where
  "removeListener_each chans ev cb opts [] = (None, chans)"
| "removeListener_each chans ev cb opts (ch # chs) =
     (case chans ch of
        None \<Rightarrow> (Some TypeError, chans)
      | Some c \<Rightarrow>
          removeListener_each
            (chans(ch \<mapsto> c\<lparr>ch_listeners :=
                              registry_removeListener (ch_listeners c) (Some ev) cb opts\<rparr>))
            ev cb opts chs)"

definition removeListener ::
  "input \<Rightarrow> string option \<Rightarrow> callback option \<Rightarrow> options \<Rightarrow> error option \<times> input" where
  "removeListener inp event cb options =
     (let options' = default_channels options in
      case event of
        None \<Rightarrow>
          (case sanitizeChannels (opt_channels options') of
             Inl err \<Rightarrow> (Some err, inp)
           | Inr chs \<Rightarrow>
               (None,
                inp\<lparr>channels := removeListener_all_each (channels inp) chs,
                    listeners := registry_removeListener (listeners inp) None None no_options\<rparr>))
      | Some ev \<Rightarrow>
          if ev \<in> set EVENTS then
            (case sanitizeChannels (opt_channels options') of
               Inl err \<Rightarrow> (Some err, inp)
             | Inr chs \<Rightarrow>
                 (case removeListener_each (channels inp) ev cb options' chs of
                    (err, chans) \<Rightarrow> (err, inp\<lparr>channels := chans\<rparr>)))
          else
            (None,
             inp\<lparr>listeners := registry_removeListener (listeners inp) (Some ev) cb options'\<rparr>))"

text \<open>
  \<open>close()\<close> and \<open>destroy()\<close> are asynchronous: the result is the promise's outcome.
  \<open>transport\<close> is the answer of the transport to \<open>_midiInput.close()\<close>: \<open>None\<close> when it
  resolves, \<open>Some err\<close> when it rejects with \<open>err\<close>. \<open>close\<close> fulfils with the
  \<open>Input\<close> itself. \<open>destroy\<close> visits the channels of the array in index order (the
  array never grows beyond index 16) and clears the transport reference only after
  \<open>close\<close> has fulfilled.
\<close>

datatype 'a promise = Fulfilled 'a | Rejected jsref

definition close :: "input \<Rightarrow> jsref option \<Rightarrow> input promise \<times> effect list" where
  "close inp transport =
     (case midiInput inp of
        None \<Rightarrow> (Fulfilled inp, [])
      | Some mi \<Rightarrow>
          (case transport of
             Some err \<Rightarrow> (Rejected err, [TransportClose])
           | None \<Rightarrow> (Fulfilled inp, [TransportClose])))"

definition destroy :: "input \<Rightarrow> jsref option \<Rightarrow> unit promise \<times> input \<times> effect list" where
  "destroy inp transport =
     (let inp1 = snd (removeListener inp None None no_options);
          destroyed = map ChannelDestroy (filter (\<lambda>i. channels inp1 i \<noteq> None) [0..<17]);
          inp2 = inp1\<lparr>channels := (\<lambda>i. None), forwarders := [],
                     midiInput :=
                       map_option (\<lambda>mi. mi\<lparr>onstatechange := False, onmidimessage := False\<rparr>)
                         (midiInput inp1)\<rparr>
      in case close inp2 transport of
           (Rejected err, effs) \<Rightarrow> (Rejected err, inp2, destroyed @ effs)
         | (Fulfilled x, effs) \<Rightarrow> (Fulfilled (), inp2\<lparr>midiInput := None\<rparr>, destroyed @ effs))"

subsection \<open>Notions used in the statements\<close>

text \<open>
  A port is intact when the 16 channels of the constructor are in place, that is,
  before \<open>destroy\<close> has emptied the array.
\<close>

definition intact :: "input \<Rightarrow> bool" where
  "intact inp = list_all (\<lambda>ch. channels inp ch \<noteq> None) [1..<17]"

text \<open>Channel \<open>ch\<close> of the port exists and its registry has a matching listener.\<close>

definition channel_hasListener :: "input \<Rightarrow> nat \<Rightarrow> string \<Rightarrow> callback \<Rightarrow> bool" where
  "channel_hasListener inp ch ev cb =
     (case channels inp ch of
        None \<Rightarrow> False
      | Some c \<Rightarrow> registry_hasListener (ch_listeners c) ev cb)"

text \<open>The listener that the channel numbered \<open>n\<close> creates, and one round of the loop
  of \<open>addListener\<close>.\<close>

definition new_listener :: "string \<Rightarrow> callback \<Rightarrow> options \<Rightarrow> nat \<Rightarrow> listener" where
  "new_listener ev cb opts n =
     \<lparr>l_event = ev, l_target = ChannelEmitter n, l_callback = cb, l_options = opts\<rparr>"

definition add_to ::
  "(nat \<Rightarrow> input_channel option) \<Rightarrow> string \<Rightarrow> callback \<Rightarrow> options \<Rightarrow> nat \<Rightarrow> input_channel
     \<Rightarrow> (nat \<Rightarrow> input_channel option)" where
  "add_to chans ev cb opts ch c =
     chans(ch \<mapsto> c\<lparr>ch_listeners :=
       (if opt_prepend opts then new_listener ev cb opts (number c) # ch_listeners c
        else ch_listeners c @ [new_listener ev cb opts (number c)])\<rparr>)"

text \<open>A transport object for the examples.\<close>

definition test_port :: midi_port where
  "test_port =
     \<lparr>connection = ''open'', port_id = ''in-1'', manufacturer = ''Acme'',
      port_name = ''Keys'', port_state = ''connected'', port_type = ''input'',
      onstatechange = False, onmidimessage = False\<rparr>"

section \<open>Properties\<close>

subsection \<open>Decoding and the constructor\<close>

lemma intact_channel: "intact inp \<Longrightarrow> 1 \<le> ch \<Longrightarrow> ch \<le> 16 \<Longrightarrow> channels inp ch \<noteq> None"
  by (simp add: intact_def list_all_iff)

lemma intact_new: "intact (new_Input p v)"
  by (simp add: intact_def new_Input_def upt_rec)

lemma forwarders_new: "forwarders (new_Input p v) = []"
  by (simp add: new_Input_def)

lemma Message_flags: "isSystemMessage (Message d) \<noteq> isChannelMessage (Message d)"
  by (simp add: Message_def split: list.splits)

lemma Message_channel:
  assumes c: "isChannelMessage (Message d)"
  shows "1 \<le> channel (Message d) \<and> channel (Message d) \<le> 16"
proof (cases d)
  case Nil
  with c show ?thesis by (simp add: Message_def)
next
  case (Cons s ds)
  have "unat (s AND 0x0F) \<le> unat (0x0F :: byte)"
    by (rule word_le_nat_alt [THEN iffD1]) (simp add: word_and_le1)
  then show ?thesis using c Cons by (simp add: Message_def split: if_splits)
qed

text \<open>Every status byte of the channel range has a named kind.\<close>

lemma channel_message_type_named:
  fixes s :: byte
  assumes "0x80 \<le> s" "s \<le> 0xEF"
  shows "channel_message_type s \<noteq> None"
proof -
  have u: "128 \<le> unat s" "unat s \<le> 239"
    using assms by (simp_all add: word_le_nat_alt)
  have d: "unat (drop_bit 4 s) = unat s div 16"
    by (simp add: drop_bit_eq_div unat_div)
  have "8 \<le> unat s div 16 \<and> unat s div 16 \<le> 14" using u by auto
  then have "unat s div 16 \<in> {8, 9, 10, 11, 12, 13, 14}" by auto
  then have "unat (drop_bit 4 s) \<in> {8, 9, 10, 11, 12, 13, 14}" using d by simp
  moreover have "\<And>k::byte. drop_bit 4 s = k \<longleftrightarrow> unat (drop_bit 4 s) = unat k"
    by (rule word_unat_eq_iff)
  ultimately have "drop_bit 4 s \<in> {0x8, 0x9, 0xA, 0xB, 0xC, 0xD, 0xE}"
    by fastforce
  then show ?thesis by (auto simp: channel_message_type_def Let_def)
qed

lemma untyped_is_system:
  assumes t: "type (Message d) = None"
  shows "isSystemMessage (Message d)"
proof (cases d)
  case Nil
  then show ?thesis by (simp add: Message_def)
next
  case (Cons s ds)
  show ?thesis
  proof (cases "0x80 \<le> s \<and> s \<le> 0xEF")
    case True
    with Cons t channel_message_type_named [of s] show ?thesis by (simp add: Message_def)
  next
    case False
    with Cons show ?thesis by (simp add: Message_def)
  qed
qed

lemma parseEvent_single: "\<exists>n ev. parseEvent e = [Emit n (MidiEvent ev)]"
  by (simp add: parseEvent_def Let_def)

lemma onMidiMessage_system:
  assumes "isSystemMessage (Message (e_data e))"
  shows "onMidiMessage inp e =
     (Emit ''midimessage'' (MidiEvent (midimessage_event e))
        # parseEvent (midimessage_event e)
        @ map (\<lambda>f. Forward f (Message (e_data e))) (forwarders inp), None)"
  using assms by (simp add: onMidiMessage_def Let_def)

lemma onMidiMessage_channel:
  assumes i: "intact inp" and s: "\<not> isSystemMessage (Message (e_data e))"
  shows "onMidiMessage inp e =
     (Emit ''midimessage'' (MidiEvent (midimessage_event e))
        # ProcessMidiMessageEvent (channel (Message (e_data e))) (midimessage_event e)
        # map (\<lambda>f. Forward f (Message (e_data e))) (forwarders inp), None)"
proof -
  have c: "isChannelMessage (Message (e_data e))"
    using s Message_flags [of "e_data e"] by simp
  from Message_channel [OF c] intact_channel [OF i]
  obtain ch where "channels inp (channel (Message (e_data e))) = Some ch" by blast
  with s c show ?thesis by (simp add: onMidiMessage_def Let_def)
qed

subsection \<open>Routing of a message\<close>

text \<open>
  Claim C1. On an intact port every received frame is routed exactly once: either the
  decoded message is a system message and not a channel message, and the call emits
  \<open>midimessage\<close>, then the one event of the system dispatcher \<open>_parseEvent\<close>, then the
  forwarders, handing nothing to a channel; or it is a channel message and not a system
  message, its channel is in 1..16, and the call emits \<open>midimessage\<close>, hands the event to
  that one channel and then runs the forwarders, without a second emission. No call
  ends in an exception. A message whose status byte has no known kind is a system
  message, so it takes the first route.
\<close>

theorem onMidiMessage_routes_once:
  assumes "intact inp"
  shows "((isSystemMessage (Message (e_data e)) \<and> \<not> isChannelMessage (Message (e_data e))
           \<and> (\<exists>n ev. parseEvent (midimessage_event e) = [Emit n (MidiEvent ev)]
                \<and> onMidiMessage inp e =
                    (Emit ''midimessage'' (MidiEvent (midimessage_event e))
                       # Emit n (MidiEvent ev)
                       # map (\<lambda>f. Forward f (Message (e_data e))) (forwarders inp), None)))
         \<or> (isChannelMessage (Message (e_data e)) \<and> \<not> isSystemMessage (Message (e_data e))
           \<and> 1 \<le> channel (Message (e_data e)) \<and> channel (Message (e_data e)) \<le> 16
           \<and> onMidiMessage inp e =
               (Emit ''midimessage'' (MidiEvent (midimessage_event e))
                  # ProcessMidiMessageEvent (channel (Message (e_data e))) (midimessage_event e)
                  # map (\<lambda>f. Forward f (Message (e_data e))) (forwarders inp), None)))
       \<and> (type (Message (e_data e)) = None \<longrightarrow> isSystemMessage (Message (e_data e)))"
proof (cases "isSystemMessage (Message (e_data e))")
  case True
  then have n: "\<not> isChannelMessage (Message (e_data e))"
    using Message_flags [of "e_data e"] by simp
  obtain n ev where p: "parseEvent (midimessage_event e) = [Emit n (MidiEvent ev)]"
    using parseEvent_single by blast
  show ?thesis using True n p onMidiMessage_system [OF True, of inp] by simp
next
  case False
  then have c: "isChannelMessage (Message (e_data e))"
    using Message_flags [of "e_data e"] by simp
  show ?thesis
    using False c Message_channel [OF c] onMidiMessage_channel [OF assms False]
      untyped_is_system [of "e_data e"]
    by auto
qed

theorem onMidiMessage_routes_once_witness:
  "intact (new_Input test_port True)
   \<and> onMidiMessage (new_Input test_port True) \<lparr>e_data = [0x90, 0x40, 0x7F], timeStamp = 0\<rparr> =
       ([Emit ''midimessage''
           (MidiEvent (midimessage_event \<lparr>e_data = [0x90, 0x40, 0x7F], timeStamp = 0\<rparr>)),
         ProcessMidiMessageEvent 1
           (midimessage_event \<lparr>e_data = [0x90, 0x40, 0x7F], timeStamp = 0\<rparr>)], None)
   \<and> type (Message [0xF4]) = None
   \<and> isSystemMessage (Message [0xF4])"
  using onMidiMessage_routes_once [where inp = "new_Input test_port True"
      and e = "\<lparr>e_data = [0x90, 0x40, 0x7F], timeStamp = 0\<rparr>", OF intact_new]
    onMidiMessage_routes_once [where inp = "new_Input test_port True"
      and e = "\<lparr>e_data = [0xF4], timeStamp = 0\<rparr>", OF intact_new]
  by (simp add: intact_new forwarders_new Message_def system_message_type_def)

subsection \<open>Order of the effects of a message\<close>

lemma intact_addForwarder: "intact (addForwarder inp f) = intact inp"
  by (simp add: intact_def addForwarder_def)

lemma forwarders_addForwarder: "forwarders (addForwarder inp f) = forwarders inp @ [f]"
  by (simp add: addForwarder_def)

lemma onMidiMessage_trace:
  assumes "intact inp"
  shows "onMidiMessage inp e =
     (Emit ''midimessage'' (MidiEvent (midimessage_event e))
        # (if isSystemMessage (Message (e_data e)) then parseEvent (midimessage_event e)
           else [ProcessMidiMessageEvent (channel (Message (e_data e))) (midimessage_event e)])
        @ map (\<lambda>f. Forward f (Message (e_data e))) (forwarders inp), None)"
  using onMidiMessage_system [of e inp] onMidiMessage_channel [OF assms, of e]
  by simp

text \<open>
  Claim C5. For every frame received on an intact port, whatever its kind, the call
  first emits the event \<open>midimessage\<close>, then performs exactly one dispatch step (the
  event of the system dispatcher, or the hand-over to the channel), and last calls every
  forwarder with the message, in the order of the forwarder list, to which
  \<open>addForwarder\<close> appends. The effects do not depend on the registries: two intact
  ports with the same forwarders perform the same effects, whatever their listeners.
\<close>

theorem onMidiMessage_order:
  assumes "intact inp"
  shows "(\<exists>d. onMidiMessage inp e =
              (Emit ''midimessage'' (MidiEvent (midimessage_event e)) # d
                 # map (\<lambda>f. Forward f (Message (e_data e))) (forwarders inp), None)
            \<and> (isSystemMessage (Message (e_data e))
                 \<and> parseEvent (midimessage_event e) = [d]
               \<or> isChannelMessage (Message (e_data e))
                 \<and> d = ProcessMidiMessageEvent (channel (Message (e_data e)))
                          (midimessage_event e)))
       \<and> ev_type (midimessage_event e) = ''midimessage''
       \<and> forwarders (addForwarder inp f) = forwarders inp @ [f]
       \<and> (intact inp' \<and> forwarders inp' = forwarders inp \<longrightarrow>
            onMidiMessage inp' e = onMidiMessage inp e)"
proof -
  obtain n ev where p: "parseEvent (midimessage_event e) = [Emit n (MidiEvent ev)]"
    using parseEvent_single by blast
  have a: "\<exists>d. onMidiMessage inp e =
              (Emit ''midimessage'' (MidiEvent (midimessage_event e)) # d
                 # map (\<lambda>f. Forward f (Message (e_data e))) (forwarders inp), None)
            \<and> (isSystemMessage (Message (e_data e))
                 \<and> parseEvent (midimessage_event e) = [d]
               \<or> isChannelMessage (Message (e_data e))
                 \<and> d = ProcessMidiMessageEvent (channel (Message (e_data e)))
                          (midimessage_event e))"
    using onMidiMessage_trace [OF assms, of e] p Message_flags [of "e_data e"] by auto
  have b: "ev_type (midimessage_event e) = ''midimessage''"
    by (simp add: midimessage_event_def Let_def)
  have c: "intact inp' \<and> forwarders inp' = forwarders inp \<longrightarrow>
            onMidiMessage inp' e = onMidiMessage inp e"
    using onMidiMessage_trace [OF assms, of e] onMidiMessage_trace [of inp' e] by simp
  from a b c forwarders_addForwarder show ?thesis by blast
qed

theorem onMidiMessage_order_witness:
  "intact (addForwarder (addForwarder (new_Input test_port True) 1) 2)
   \<and> onMidiMessage (addForwarder (addForwarder (new_Input test_port True) 1) 2)
        \<lparr>e_data = [0xF8], timeStamp = 0\<rparr> =
       ([Emit ''midimessage'' (MidiEvent (midimessage_event \<lparr>e_data = [0xF8], timeStamp = 0\<rparr>)),
         Emit ''clock''
           (MidiEvent ((midimessage_event \<lparr>e_data = [0xF8], timeStamp = 0\<rparr>)
              \<lparr>ev_type := ''clock''\<rparr>)),
         Forward 1 (Message [0xF8]), Forward 2 (Message [0xF8])], None)
   \<and> intact ((addForwarder (addForwarder (new_Input test_port True) 1) 2)
        \<lparr>listeners := [\<lparr>l_event = ''clock'', l_target = PortEmitter, l_callback = 7,
                         l_options = no_options\<rparr>]\<rparr>)
   \<and> onMidiMessage
        ((addForwarder (addForwarder (new_Input test_port True) 1) 2)
           \<lparr>listeners := [\<lparr>l_event = ''clock'', l_target = PortEmitter, l_callback = 7,
                            l_options = no_options\<rparr>]\<rparr>)
        \<lparr>e_data = [0xF8], timeStamp = 0\<rparr> =
       onMidiMessage (addForwarder (addForwarder (new_Input test_port True) 1) 2)
        \<lparr>e_data = [0xF8], timeStamp = 0\<rparr>"
proof -
  let ?inp = "addForwarder (addForwarder (new_Input test_port True) 1) 2"
  let ?inp' = "?inp\<lparr>listeners := [\<lparr>l_event = ''clock'', l_target = PortEmitter,
      l_callback = 7, l_options = no_options\<rparr>]\<rparr>"
  have i: "intact ?inp" by (simp add: intact_addForwarder intact_new)
  have i': "intact ?inp'" using i by (simp add: intact_def)
  have f: "forwarders ?inp' = forwarders ?inp" by simp
  note t = onMidiMessage_order [where inp = ?inp and inp' = ?inp'
      and e = "\<lparr>e_data = [0xF8], timeStamp = 0\<rparr>" and f = 3, OF i]
  have a: "onMidiMessage ?inp \<lparr>e_data = [0xF8], timeStamp = 0\<rparr> =
       ([Emit ''midimessage'' (MidiEvent (midimessage_event \<lparr>e_data = [0xF8], timeStamp = 0\<rparr>)),
         Emit ''clock''
           (MidiEvent ((midimessage_event \<lparr>e_data = [0xF8], timeStamp = 0\<rparr>)
              \<lparr>ev_type := ''clock''\<rparr>)),
         Forward 1 (Message [0xF8]), Forward 2 (Message [0xF8])], None)"
    using t
    by (simp add: forwarders_addForwarder forwarders_new
        parseEvent_def midimessage_event_def Message_def system_message_type_def Let_def)
  have b: "onMidiMessage ?inp' \<lparr>e_data = [0xF8], timeStamp = 0\<rparr> =
       onMidiMessage ?inp \<lparr>e_data = [0xF8], timeStamp = 0\<rparr>"
    using t i' f by blast
  from i a i' b show ?thesis by blast
qed

subsection \<open>State changes of the transport\<close>

text \<open>
  Claim C6. A state-change notification is translated by its connection and state:
  connection \<open>open\<close> emits the one event \<open>opened\<close>; \<open>closed\<close> with state \<open>connected\<close>
  emits the one event \<open>closed\<close>; \<open>closed\<close> with state \<open>disconnected\<close> emits the one
  event \<open>disconnected\<close>, whose target is a snapshot of connection, id, manufacturer,
  name, state and type of the port and not the \<open>Input\<close>; \<open>pending\<close> with
  \<open>disconnected\<close> does nothing; every other combination prints a warning and emits
  nothing. The function is total: no combination fails.
\<close>

theorem onStateChange_events:
  "(connection p = ''open'' \<longrightarrow>
      onStateChange now p =
        [Emit ''opened''
           (PortEvent \<lparr>ev_timestamp = now, ev_target = This, ev_type = ''opened''\<rparr>)])
   \<and> (connection p = ''closed'' \<and> port_state p = ''connected'' \<longrightarrow>
      onStateChange now p =
        [Emit ''closed''
           (PortEvent \<lparr>ev_timestamp = now, ev_target = This, ev_type = ''closed''\<rparr>)])
   \<and> (connection p = ''closed'' \<and> port_state p = ''disconnected'' \<longrightarrow>
      onStateChange now p =
        [Emit ''disconnected''
           (PortEvent
              \<lparr>ev_timestamp = now,
               ev_target = Snapshot
                 \<lparr>snap_connection = connection p, snap_id = port_id p,
                  snap_manufacturer = manufacturer p, snap_name = port_name p,
                  snap_state = port_state p, snap_type = port_type p\<rparr>,
               ev_type = ''disconnected''\<rparr>)])
   \<and> (connection p = ''pending'' \<and> port_state p = ''disconnected'' \<longrightarrow>
      onStateChange now p = [])
   \<and> (connection p \<noteq> ''open''
        \<and> \<not> (connection p = ''closed'' \<and> port_state p = ''connected'')
        \<and> \<not> (connection p = ''closed'' \<and> port_state p = ''disconnected'')
        \<and> \<not> (connection p = ''pending'' \<and> port_state p = ''disconnected'') \<longrightarrow>
      onStateChange now p = [Warn (connection p) (port_state p)])"
  by (simp add: onStateChange_def)

theorem onStateChange_events_witness:
  "onStateChange 5 test_port =
     [Emit ''opened'' (PortEvent \<lparr>ev_timestamp = 5, ev_target = This, ev_type = ''opened''\<rparr>)]
   \<and> onStateChange 5 (test_port\<lparr>connection := ''closed''\<rparr>) =
     [Emit ''closed'' (PortEvent \<lparr>ev_timestamp = 5, ev_target = This, ev_type = ''closed''\<rparr>)]
   \<and> onStateChange 5 (test_port\<lparr>connection := ''closed'', port_state := ''disconnected''\<rparr>) =
     [Emit ''disconnected''
        (PortEvent
           \<lparr>ev_timestamp = 5,
            ev_target = Snapshot
              \<lparr>snap_connection = ''closed'', snap_id = ''in-1'',
               snap_manufacturer = ''Acme'', snap_name = ''Keys'',
               snap_state = ''disconnected'', snap_type = ''input''\<rparr>,
            ev_type = ''disconnected''\<rparr>)]
   \<and> onStateChange 5 (test_port\<lparr>connection := ''pending'', port_state := ''disconnected''\<rparr>) = []
   \<and> onStateChange 5 (test_port\<lparr>connection := ''pending''\<rparr>) = [Warn ''pending'' ''connected'']"
  using onStateChange_events [of test_port 5]
    onStateChange_events [of "test_port\<lparr>connection := ''closed''\<rparr>" 5]
    onStateChange_events [of "test_port\<lparr>connection := ''closed'', port_state := ''disconnected''\<rparr>" 5]
    onStateChange_events [of "test_port\<lparr>connection := ''pending'', port_state := ''disconnected''\<rparr>" 5]
    onStateChange_events [of "test_port\<lparr>connection := ''pending''\<rparr>" 5]
  by (simp add: test_port_def)

subsection \<open>System messages\<close>

text \<open>
  Claim C8. A received message whose status byte has no known kind (the decoded type is
  \<open>undefined\<close>; 0xF4 is such a byte) is processed without an exception, and the port
  emits, after the catch-all \<open>midimessage\<close>, exactly one event, named
  \<open>unknownmidimessage\<close>, before the forwarders run.
\<close>

theorem onMidiMessage_unknown:
  "(type (Message (e_data e)) = None \<longrightarrow>
      onMidiMessage inp e =
        (Emit ''midimessage'' (MidiEvent (midimessage_event e))
           # Emit ''unknownmidimessage''
               (MidiEvent ((midimessage_event e)\<lparr>ev_type := ''unknownmidimessage''\<rparr>))
           # map (\<lambda>f. Forward f (Message (e_data e))) (forwarders inp), None))
   \<and> type (Message (0xF4 # ds)) = None"
proof -
  have "onMidiMessage inp e =
        (Emit ''midimessage'' (MidiEvent (midimessage_event e))
           # Emit ''unknownmidimessage''
               (MidiEvent ((midimessage_event e)\<lparr>ev_type := ''unknownmidimessage''\<rparr>))
           # map (\<lambda>f. Forward f (Message (e_data e))) (forwarders inp), None)"
    if t: "type (Message (e_data e)) = None"
    using t onMidiMessage_system [OF untyped_is_system [OF t], of inp]
    by (simp add: parseEvent_def midimessage_event_def Let_def)
  moreover have "type (Message (0xF4 # ds)) = None"
    by (simp add: Message_def system_message_type_def)
  ultimately show ?thesis by blast
qed

theorem onMidiMessage_unknown_witness:
  "type (Message [0xF4]) = None
   \<and> onMidiMessage (new_Input test_port True) \<lparr>e_data = [0xF4], timeStamp = 0\<rparr> =
       ([Emit ''midimessage'' (MidiEvent (midimessage_event \<lparr>e_data = [0xF4], timeStamp = 0\<rparr>)),
         Emit ''unknownmidimessage''
           (MidiEvent ((midimessage_event \<lparr>e_data = [0xF4], timeStamp = 0\<rparr>)
              \<lparr>ev_type := ''unknownmidimessage''\<rparr>))], None)"
  using onMidiMessage_unknown [where inp = "new_Input test_port True"
      and e = "\<lparr>e_data = [0xF4], timeStamp = 0\<rparr>" and ds = "[]"]
  by (simp add: forwarders_new)

text \<open>
  Claim C9. The event emitted for a \<open>songselect\<close> message that has its data byte
  carries \<open>song\<close>, the data byte plus 1 as a number that does not wrap; a frame
  \<open>0xF3, b, ...\<close> makes the port emit, after \<open>midimessage\<close>, exactly one event,
  \<open>songselect\<close> with \<open>song = b + 1\<close>; for the frame \<open>0xF3, 0x04\<close> the song is 5.
\<close>

theorem parseEvent_songselect:
  "(type (ev_message ev) = Some ''songselect'' \<and> 1 < length (ev_data ev) \<longrightarrow>
      parseEvent ev =
        [Emit ''songselect''
           (MidiEvent (ev\<lparr>ev_type := ''songselect'',
                          ev_song := Some (Number (uint (ev_data ev ! 1) + 1))\<rparr>))])
   \<and> onMidiMessage inp \<lparr>e_data = 0xF3 # b # ds, timeStamp = t\<rparr> =
       (Emit ''midimessage''
          (MidiEvent (midimessage_event \<lparr>e_data = 0xF3 # b # ds, timeStamp = t\<rparr>))
        # Emit ''songselect''
            (MidiEvent ((midimessage_event \<lparr>e_data = 0xF3 # b # ds, timeStamp = t\<rparr>)
               \<lparr>ev_type := ''songselect'', ev_song := Some (Number (uint b + 1))\<rparr>))
        # map (\<lambda>f. Forward f (Message (0xF3 # b # ds))) (forwarders inp), None)"
  by (simp add: onMidiMessage_def Let_def parseEvent_def midimessage_event_def Message_def
      system_message_type_def)

theorem parseEvent_songselect_witness:
  "type (ev_message (midimessage_event \<lparr>e_data = [0xF3, 0x04], timeStamp = 0\<rparr>)) = Some ''songselect''
   \<and> 1 < length (ev_data (midimessage_event \<lparr>e_data = [0xF3, 0x04], timeStamp = 0\<rparr>))
   \<and> parseEvent (midimessage_event \<lparr>e_data = [0xF3, 0x04], timeStamp = 0\<rparr>) =
       [Emit ''songselect''
          (MidiEvent ((midimessage_event \<lparr>e_data = [0xF3, 0x04], timeStamp = 0\<rparr>)
             \<lparr>ev_type := ''songselect'', ev_song := Some (Number 5)\<rparr>))]
   \<and> onMidiMessage (new_Input test_port True) \<lparr>e_data = [0xF3, 0x04], timeStamp = 0\<rparr> =
       ([Emit ''midimessage''
           (MidiEvent (midimessage_event \<lparr>e_data = [0xF3, 0x04], timeStamp = 0\<rparr>)),
         Emit ''songselect''
           (MidiEvent ((midimessage_event \<lparr>e_data = [0xF3, 0x04], timeStamp = 0\<rparr>)
              \<lparr>ev_type := ''songselect'', ev_song := Some (Number 5)\<rparr>))], None)"
  using parseEvent_songselect [where inp = "new_Input test_port True"
      and ev = "midimessage_event \<lparr>e_data = [0xF3, 0x04], timeStamp = 0\<rparr>"
      and b = "0x04" and ds = "[]" and t = 0]
  by (simp add: forwarders_new midimessage_event_def Message_def system_message_type_def)

subsection \<open>Closing a port\<close>

lemma destroy_clears: "destroy inp None = (p, inp', effs) \<Longrightarrow> midiInput inp' = None"
  by (auto simp: destroy_def close_def Let_def split: option.splits prod.splits promise.splits)

text \<open>
  Claim C10. \<open>close\<close> on a port whose transport reference is cleared (as it is after
  \<open>destroy\<close>) makes no transport call and fulfils with the port itself, whatever the
  transport would have answered.
\<close>

theorem close_without_transport:
  "midiInput inp = None \<Longrightarrow> close inp transport = (Fulfilled inp, [])"
  by (simp add: close_def)

theorem close_without_transport_witness:
  "midiInput (fst (snd (destroy (new_Input test_port True) None))) = None
   \<and> close (fst (snd (destroy (new_Input test_port True) None))) (Some 3) =
       (Fulfilled (fst (snd (destroy (new_Input test_port True) None))), [])"
proof -
  have h: "midiInput (fst (snd (destroy (new_Input test_port True) None))) = None"
    using destroy_clears [of "new_Input test_port True"]
    by (cases "destroy (new_Input test_port True) None") simp
  show ?thesis using h close_without_transport [OF h, of "Some 3"] by simp
qed

subsection \<open>Subscriptions\<close>

lemma sanitize_range:
  assumes "sanitizeChannels arg = Inr chs" "ch \<in> set chs"
  shows "1 \<le> ch \<and> ch \<le> 16"
proof (cases arg)
  case None
  with assms show ?thesis by (simp add: sanitizeChannels_def)
next
  case (Some cs)
  with assms have a: "\<forall>c\<in>set cs. 1 \<le> c \<and> c \<le> 16" and m: "chs = map nat cs"
    by (auto simp: sanitizeChannels_def list_all_iff split: if_splits)
  from m assms(2) obtain c where "c \<in> set cs" "ch = nat c" by auto
  with a show ?thesis by auto
qed

lemma sanitize_invalid:
  "c \<in> set cs \<Longrightarrow> c < 1 \<or> 16 < c \<Longrightarrow> sanitizeChannels (Some cs) = Inl ValidationError"
  by (force simp: sanitizeChannels_def list_all_iff)

lemma addListener_each_step:
  "chans ch = Some c \<Longrightarrow>
   addListener_each chans ev cb opts (ch # chs) acc =
     addListener_each (add_to chans ev cb opts ch c) ev cb opts chs
       (acc @ [new_listener ev cb opts (number c)])"
  by (simp add: registry_addListener_def Let_def new_listener_def add_to_def)

lemma add_to_number: "chans ch = Some c \<Longrightarrow>
   number (the (add_to chans ev cb opts ch c x)) = number (the (chans x))"
  by (simp add: add_to_def)

lemma add_to_present: "chans x \<noteq> None \<Longrightarrow> add_to chans ev cb opts ch c x \<noteq> None"
  by (simp add: add_to_def)

lemma addListener_each_fst:
  "\<forall>ch\<in>set chs. chans ch \<noteq> None \<Longrightarrow>
   fst (addListener_each chans ev cb opts chs acc) =
     Inr (acc @ map (\<lambda>ch. new_listener ev cb opts (number (the (chans ch)))) chs)"
proof (induction chs arbitrary: chans acc)
  case Nil
  then show ?case by simp
next
  case (Cons ch chs)
  then obtain c where c: "chans ch = Some c" by auto
  have p: "\<forall>x\<in>set chs. add_to chans ev cb opts ch c x \<noteq> None"
    using Cons.prems by (simp add: add_to_present)
  show ?case
    unfolding addListener_each_step [of chans ch c, OF c] Cons.IH [OF p]
    using c by (simp add: add_to_number [of chans ch c, OF c])
qed

lemma addListener_each_snd:
  "\<forall>ch\<in>set chs. chans ch \<noteq> None \<Longrightarrow>
   snd (addListener_each chans ev cb opts chs acc) x =
     map_option (\<lambda>c. c\<lparr>ch_listeners :=
        (if opt_prepend opts
         then replicate (count_list chs x) (new_listener ev cb opts (number c)) @ ch_listeners c
         else ch_listeners c @ replicate (count_list chs x) (new_listener ev cb opts (number c)))\<rparr>)
       (chans x)"
proof (induction chs arbitrary: chans acc)
  case Nil
  then show ?case by (cases "chans x") simp_all
next
  case (Cons ch chs)
  then obtain c where c: "chans ch = Some c" by auto
  have p: "\<forall>x\<in>set chs. add_to chans ev cb opts ch c x \<noteq> None"
    using Cons.prems by (simp add: add_to_present)
  show ?case
  proof (cases "ch = x")
    case True
    then show ?thesis
      unfolding addListener_each_step [of chans ch c, OF c] Cons.IH [OF p]
      using c by (cases "opt_prepend opts") (simp_all add: add_to_def replicate_append_same)
  next
    case False
    then show ?thesis
      unfolding addListener_each_step [of chans ch c, OF c] Cons.IH [OF p]
      using c by (cases "opt_prepend opts") (simp_all add: add_to_def)
  qed
qed

lemma addListener_channel_scoped:
  assumes i: "intact inp" and ev: "ev \<in> set EVENTS"
    and s: "sanitizeChannels (opt_channels (default_channels opts)) = Inr chs"
  shows "addListener inp ev cb opts =
     (Inr (Listeners (map (\<lambda>ch. new_listener ev cb (default_channels opts)
                               (number (the (channels inp ch)))) chs)),
      inp\<lparr>channels := snd (addListener_each (channels inp) ev cb (default_channels opts) chs [])\<rparr>)"
proof -
  have p: "\<forall>ch\<in>set chs. channels inp ch \<noteq> None"
    using sanitize_range [OF s] intact_channel [OF i] by blast
  obtain r chans where e: "addListener_each (channels inp) ev cb (default_channels opts) chs [] = (r, chans)"
    by (cases "addListener_each (channels inp) ev cb (default_channels opts) chs []")
  from addListener_each_fst [OF p, of ev cb "default_channels opts" "[]"] e
  have "r = Inr (map (\<lambda>ch. new_listener ev cb (default_channels opts)
                               (number (the (channels inp ch)))) chs)" by simp
  with e ev s show ?thesis by (simp add: addListener_def Let_def)
qed

lemma noteon_EVENTS: "''noteon'' \<in> set EVENTS"
  by (simp add: EVENTS_def)

lemma midimessage_EVENTS: "''midimessage'' \<notin> set EVENTS"
  by (auto simp: EVENTS_def)

lemma removeListener_all_each_at:
  "removeListener_all_each chans chs x =
     (if x \<in> set chs then map_option (\<lambda>c. c\<lparr>ch_listeners := []\<rparr>) (chans x) else chans x)"
proof (induction chs arbitrary: chans)
  case Nil
  then show ?case by simp
next
  case (Cons ch chs)
  show ?case
  proof (cases "chans ch")
    case None
    have step: "removeListener_all_each chans (ch # chs) = removeListener_all_each chans chs"
      using None by simp
    show ?thesis unfolding step Cons.IH [of chans] using None by auto
  next
    case (Some c)
    have step: "removeListener_all_each chans (ch # chs) =
        removeListener_all_each (chans(ch \<mapsto> c\<lparr>ch_listeners := []\<rparr>)) chs"
      using Some by (simp add: registry_removeListener_def)
    show ?thesis
      unfolding step Cons.IH [of "chans(ch \<mapsto> c\<lparr>ch_listeners := []\<rparr>)"]
      using Some by auto
  qed
qed


lemma addListener_channels:
  assumes i: "intact inp" and ev: "ev \<in> set EVENTS"
    and s: "sanitizeChannels (opt_channels (default_channels opts)) = Inr chs"
  shows "channels (snd (addListener inp ev cb opts)) x =
     map_option (\<lambda>c. c\<lparr>ch_listeners :=
        (if opt_prepend (default_channels opts)
         then replicate (count_list chs x)
                (new_listener ev cb (default_channels opts) (number c)) @ ch_listeners c
         else ch_listeners c @ replicate (count_list chs x)
                (new_listener ev cb (default_channels opts) (number c)))\<rparr>)
       (channels inp x)"
proof -
  have p: "\<forall>ch\<in>set chs. channels inp ch \<noteq> None"
    using sanitize_range [OF s] intact_channel [OF i] by blast
  show ?thesis
    unfolding addListener_channel_scoped [OF i ev s]
    using addListener_each_snd [OF p, of ev cb "default_channels opts" "[]" x]
    by simp
qed

text \<open>
  Claim C2. On an intact port, \<open>addListener\<close> for a channel-scoped event name resolves
  the channels from \<open>options.channels\<close>, all 16 when it is omitted, and returns an
  array with one listener for each entry of the resolved list, in order: the listener
  has the event name and the callback and is in the registry of its channel, each
  channel's registry grows by as many listeners as the channel has entries in the list,
  and the port's own registry is unchanged. For an input-wide name it returns the one
  listener itself, which is the one listener added to the port's registry, and no
  channel changes.
\<close>

theorem addListener_returns:
  assumes "intact inp"
  shows
    "(ev \<in> set EVENTS \<and> sanitizeChannels (opt_channels (default_channels opts)) = Inr chs \<longrightarrow>
        (\<exists>ls inp'. addListener inp ev cb opts = (Inr (Listeners ls), inp')
           \<and> length ls = length chs
           \<and> listeners inp' = listeners inp
           \<and> (\<forall>i<length chs. l_event (ls ! i) = ev \<and> l_callback (ls ! i) = cb
                  \<and> (\<exists>c'. channels inp' (chs ! i) = Some c' \<and> ls ! i \<in> set (ch_listeners c')))
           \<and> (\<forall>x c. channels inp x = Some c \<longrightarrow>
                  (\<exists>c'. channels inp' x = Some c'
                     \<and> length (ch_listeners c') = length (ch_listeners c) + count_list chs x))))
     \<and> (opt_channels opts = None \<longrightarrow>
          sanitizeChannels (opt_channels (default_channels opts)) =
            Inr [1, 2, 3, 4, 5, 6, 7, 8, 9, 10, 11, 12, 13, 14, 15, 16])
     \<and> (ev \<notin> set EVENTS \<longrightarrow>
          (\<exists>l. addListener inp ev cb opts =
                 (Inr (OneListener l),
                  inp\<lparr>listeners := (if opt_prepend opts then l # listeners inp
                                     else listeners inp @ [l])\<rparr>)
               \<and> l_event l = ev \<and> l_callback l = cb))"
proof -
  let ?o = "default_channels opts"
  have a: "\<exists>ls inp'. addListener inp ev cb opts = (Inr (Listeners ls), inp')
           \<and> length ls = length chs
           \<and> listeners inp' = listeners inp
           \<and> (\<forall>i<length chs. l_event (ls ! i) = ev \<and> l_callback (ls ! i) = cb
                  \<and> (\<exists>c'. channels inp' (chs ! i) = Some c' \<and> ls ! i \<in> set (ch_listeners c')))
           \<and> (\<forall>x c. channels inp x = Some c \<longrightarrow>
                  (\<exists>c'. channels inp' x = Some c'
                     \<and> length (ch_listeners c') = length (ch_listeners c) + count_list chs x))"
    if ev: "ev \<in> set EVENTS" and s: "sanitizeChannels (opt_channels ?o) = Inr chs"
  proof -
    let ?ls = "map (\<lambda>ch. new_listener ev cb ?o (number (the (channels inp ch)))) chs"
    let ?inp' = "snd (addListener inp ev cb opts)"
    have r: "addListener inp ev cb opts = (Inr (Listeners ?ls), ?inp')"
      using addListener_channel_scoped [OF assms ev s, of cb] by simp
    have l: "listeners ?inp' = listeners inp"
      using addListener_channel_scoped [OF assms ev s, of cb] by simp
    have ch: "channels ?inp' x =
       map_option (\<lambda>c. c\<lparr>ch_listeners :=
          (if opt_prepend ?o
           then replicate (count_list chs x) (new_listener ev cb ?o (number c)) @ ch_listeners c
           else ch_listeners c @ replicate (count_list chs x) (new_listener ev cb ?o (number c)))\<rparr>)
         (channels inp x)" for x
      by (rule addListener_channels [OF assms ev s])
    have m: "l_event (?ls ! i) = ev \<and> l_callback (?ls ! i) = cb
          \<and> (\<exists>c'. channels ?inp' (chs ! i) = Some c' \<and> ?ls ! i \<in> set (ch_listeners c'))"
      if i: "i < length chs" for i
    proof -
      have mem: "chs ! i \<in> set chs" using i by simp
      then obtain c where c: "channels inp (chs ! i) = Some c"
        using sanitize_range [OF s mem] intact_channel [OF assms] by blast
      have pos: "0 < count_list chs (chs ! i)"
        using mem count_list_0_iff [of chs "chs ! i"] by (cases "count_list chs (chs ! i)") simp_all
      show ?thesis using i c pos ch [of "chs ! i"]
        by (cases "opt_prepend ?o") (simp_all add: new_listener_def)
    qed
    have g: "\<exists>c'. channels ?inp' x = Some c'
                \<and> length (ch_listeners c') = length (ch_listeners c) + count_list chs x"
      if "channels inp x = Some c" for x c
      using that ch [of x] by (cases "opt_prepend ?o") simp_all
    from r l m g show ?thesis by (intro exI [of _ ?ls] exI [of _ ?inp']) simp
  qed
  have b: "sanitizeChannels (opt_channels ?o) =
            Inr [1, 2, 3, 4, 5, 6, 7, 8, 9, 10, 11, 12, 13, 14, 15, 16]"
    if "opt_channels opts = None"
    using that by (simp add: sanitizeChannels_def MIDI_CHANNEL_NUMBERS_def default_channels_def)
  have c: "\<exists>l. addListener inp ev cb opts =
                 (Inr (OneListener l),
                  inp\<lparr>listeners := (if opt_prepend opts then l # listeners inp
                                     else listeners inp @ [l])\<rparr>)
               \<and> l_event l = ev \<and> l_callback l = cb"
    if "ev \<notin> set EVENTS"
    using that by (simp add: addListener_def registry_addListener_def Let_def)
  from a b c show ?thesis by blast
qed


theorem addListener_returns_witness:
  "intact (new_Input test_port True)
   \<and> ''noteon'' \<in> set EVENTS
   \<and> sanitizeChannels (opt_channels (default_channels (no_options\<lparr>opt_channels := Some [1, 3]\<rparr>)))
       = Inr [1, 3]
   \<and> (\<exists>ls inp'. addListener (new_Input test_port True) ''noteon'' 7
                    (no_options\<lparr>opt_channels := Some [1, 3]\<rparr>) = (Inr (Listeners ls), inp')
         \<and> length ls = 2)
   \<and> opt_channels no_options = None
   \<and> (\<exists>ls inp'. addListener (new_Input test_port True) ''noteon'' 7 no_options
                    = (Inr (Listeners ls), inp')
         \<and> length ls = 16)
   \<and> ''midimessage'' \<notin> set EVENTS
   \<and> (\<exists>l. fst (addListener (new_Input test_port True) ''midimessage'' 7 no_options)
              = Inr (OneListener l))"
proof -
  have s: "sanitizeChannels (opt_channels (default_channels (no_options\<lparr>opt_channels := Some [1, 3]\<rparr>)))
       = Inr [1, 3]"
    by (simp add: sanitizeChannels_def default_channels_def)
  have n: "opt_channels no_options = None" by (simp add: no_options_def)
  have a: "\<exists>ls inp'. addListener (new_Input test_port True) ''noteon'' 7
                    (no_options\<lparr>opt_channels := Some [1, 3]\<rparr>) = (Inr (Listeners ls), inp')
         \<and> length ls = 2"
    using addListener_returns [where inp = "new_Input test_port True" and ev = "''noteon''"
        and cb = 7 and opts = "no_options\<lparr>opt_channels := Some [1, 3]\<rparr>" and chs = "[1, 3]",
        OF intact_new] s noteon_EVENTS
    by auto
  have s16: "sanitizeChannels (opt_channels (default_channels no_options)) =
            Inr [1, 2, 3, 4, 5, 6, 7, 8, 9, 10, 11, 12, 13, 14, 15, 16]"
    using addListener_returns [where inp = "new_Input test_port True" and opts = no_options,
        OF intact_new] n by blast
  have b: "\<exists>ls inp'. addListener (new_Input test_port True) ''noteon'' 7 no_options
                    = (Inr (Listeners ls), inp')
         \<and> length ls = 16"
    using addListener_returns [where inp = "new_Input test_port True" and ev = "''noteon''"
        and cb = 7 and opts = no_options
        and chs = "[1, 2, 3, 4, 5, 6, 7, 8, 9, 10, 11, 12, 13, 14, 15, 16]",
        OF intact_new] s16 noteon_EVENTS
    by auto
  have c: "\<exists>l. fst (addListener (new_Input test_port True) ''midimessage'' 7 no_options)
              = Inr (OneListener l)"
    using addListener_returns [where inp = "new_Input test_port True" and ev = "''midimessage''"
        and cb = 7 and opts = no_options, OF intact_new] midimessage_EVENTS
    by auto
  from s n a b c intact_new noteon_EVENTS midimessage_EVENTS show ?thesis by blast
qed

text \<open>
  Claim C4. \<open>addListener\<close> for a channel-scoped event name with an entry of
  \<open>options.channels\<close> outside 1..16 fails with a validation error, and it adds no
  listener: the port is left as it was, the valid entries of the list included.
\<close>

theorem addListener_invalid_channel:
  assumes "ev \<in> set EVENTS" "opt_channels opts = Some cs" "c \<in> set cs" "c < 1 \<or> 16 < c"
  shows "addListener inp ev cb opts = (Inl ValidationError, inp)"
  using assms sanitize_invalid [of c cs]
  by (simp add: addListener_def Let_def default_channels_def)

theorem addListener_invalid_channel_witness:
  "''noteon'' \<in> set EVENTS
   \<and> opt_channels (no_options\<lparr>opt_channels := Some [1, 17]\<rparr>) = Some [1, 17]
   \<and> (17::int) \<in> set [1, 17]
   \<and> addListener (new_Input test_port True) ''noteon'' 7 (no_options\<lparr>opt_channels := Some [1, 17]\<rparr>)
       = (Inl ValidationError, new_Input test_port True)
   \<and> addListener (new_Input test_port True) ''noteon'' 7 (no_options\<lparr>opt_channels := Some [0]\<rparr>)
       = (Inl ValidationError, new_Input test_port True)"
  using addListener_invalid_channel [where ev = "''noteon''" and c = 17 and cs = "[1, 17]"
      and opts = "no_options\<lparr>opt_channels := Some [1, 17]\<rparr>"
      and inp = "new_Input test_port True" and cb = 7]
    addListener_invalid_channel [where ev = "''noteon''" and c = 0 and cs = "[0]"
      and opts = "no_options\<lparr>opt_channels := Some [0]\<rparr>"
      and inp = "new_Input test_port True" and cb = 7]
    noteon_EVENTS
  by simp

lemma every_hasListener_channel:
  "\<forall>ch\<in>set chs. channels inp ch \<noteq> None \<Longrightarrow>
   every_hasListener (channels inp) ev cb chs =
     Inr (list_all (\<lambda>ch. channel_hasListener inp ch ev cb) chs)"
  by (induction chs) (auto simp: channel_hasListener_def split: option.splits)

lemma every_hasListener_True_channel:
  "every_hasListener (channels inp) ev cb chs = Inr True \<Longrightarrow>
     list_all (\<lambda>ch. channel_hasListener inp ch ev cb) chs"
  by (induction chs) (auto simp: channel_hasListener_def split: option.splits if_splits)

lemma hasListener_True:
  assumes ev: "ev \<in> set EVENTS" and t: "hasListener inp ev cb opts = Inr True"
  shows "\<exists>chs. sanitizeChannels (opt_channels opts) = Inr chs
           \<and> list_all (\<lambda>ch. channel_hasListener inp ch ev cb) chs"
proof (cases "sanitizeChannels (opt_channels opts)")
  case (Inl err)
  with ev t show ?thesis by (simp add: hasListener_def split: if_splits)
next
  case (Inr chs)
  with ev t have "every_hasListener (channels inp) ev cb chs = Inr True"
    by (simp add: hasListener_def split: if_splits)
  from every_hasListener_True_channel [OF this] Inr show ?thesis by simp
qed

lemma hasListener_intact:
  assumes ev: "ev \<in> set EVENTS" and i: "intact inp" and o: "opt_channels opts \<noteq> None"
    and s: "sanitizeChannels (opt_channels opts) = Inr chs"
  shows "hasListener inp ev cb opts = Inr (list_all (\<lambda>ch. channel_hasListener inp ch ev cb) chs)"
proof -
  have p: "\<forall>ch\<in>set chs. channels inp ch \<noteq> None"
    using sanitize_range [OF s] intact_channel [OF i] by blast
  show ?thesis using ev o s every_hasListener_channel [OF p, of ev cb]
    by (simp add: hasListener_def)
qed

lemma registry_hasListener_append:
  "registry_hasListener (xs @ ys) ev cb \<longleftrightarrow> registry_hasListener xs ev cb \<or> registry_hasListener ys ev cb"
  by (simp add: registry_hasListener_def list_ex_iff) blast

lemma registry_hasListener_replicate:
  "registry_hasListener (replicate k (new_listener ev cb opts n)) ev cb \<longleftrightarrow> 0 < k"
  by (auto simp: registry_hasListener_def list_ex_iff new_listener_def)

lemma channel_hasListener_added:
  assumes i: "intact inp" and ev: "ev \<in> set EVENTS"
    and s: "sanitizeChannels (opt_channels (default_channels opts)) = Inr chs"
  shows "channel_hasListener (snd (addListener inp ev cb opts)) x ev cb \<longleftrightarrow>
     channel_hasListener inp x ev cb \<or> (x \<in> set chs \<and> channels inp x \<noteq> None)"
proof (cases "channels inp x")
  case None
  then show ?thesis using addListener_channels [OF i ev s, of cb x]
    by (simp add: channel_hasListener_def)
next
  case (Some c)
  have k: "0 < count_list chs x \<longleftrightarrow> x \<in> set chs"
    using count_list_0_iff [of chs x] by auto
  show ?thesis using Some addListener_channels [OF i ev s, of cb x] k
    by (cases "opt_prepend (default_channels opts)")
       (auto simp: channel_hasListener_def registry_hasListener_append
          registry_hasListener_replicate)
qed

lemma intact_addListener:
  assumes i: "intact inp" and ev: "ev \<in> set EVENTS"
    and s: "sanitizeChannels (opt_channels (default_channels opts)) = Inr chs"
  shows "intact (snd (addListener inp ev cb opts))"
  using i addListener_channels [OF i ev s, of cb]
  by (simp add: intact_def list_all_iff)

text \<open>
  Claim C3. For a channel-scoped event name, \<open>hasListener\<close> answers true only if every
  channel of the resolved set exists and has a matching listener; one channel of the set
  without a matching listener keeps the answer from being true, and on an intact port,
  with \<open>options.channels\<close> given, the answer is exactly the conjunction over the resolved
  channels. In particular, when channel 2 has no matching listener, after
  \<open>addListener("noteon", cb, {channels: [1, 3]})\<close> the call
  \<open>hasListener("noteon", cb, {channels: [1, 2, 3]})\<close> answers false.
\<close>

theorem hasListener_conjunctive:
  assumes "ev \<in> set EVENTS"
  shows
    "(hasListener inp ev cb opts = Inr True \<longrightarrow>
        (\<exists>chs. sanitizeChannels (opt_channels opts) = Inr chs
           \<and> list_all (\<lambda>ch. channel_hasListener inp ch ev cb) chs))
     \<and> (sanitizeChannels (opt_channels opts) = Inr chs \<and> ch \<in> set chs
          \<and> \<not> channel_hasListener inp ch ev cb \<longrightarrow>
        hasListener inp ev cb opts \<noteq> Inr True)
     \<and> (intact inp \<and> opt_channels opts \<noteq> None
          \<and> sanitizeChannels (opt_channels opts) = Inr chs \<longrightarrow>
        hasListener inp ev cb opts =
          Inr (list_all (\<lambda>ch. channel_hasListener inp ch ev cb) chs))
     \<and> (intact inp \<and> \<not> channel_hasListener inp 2 ''noteon'' cb \<longrightarrow>
        hasListener (snd (addListener inp ''noteon'' cb (added\<lparr>opt_channels := Some [1, 3]\<rparr>)))
          ''noteon'' cb (asked\<lparr>opt_channels := Some [1, 2, 3]\<rparr>) = Inr False)"
proof -
  have a: "hasListener inp ev cb opts = Inr True \<longrightarrow>
        (\<exists>chs. sanitizeChannels (opt_channels opts) = Inr chs
           \<and> list_all (\<lambda>ch. channel_hasListener inp ch ev cb) chs)"
    using hasListener_True [OF assms] by blast
  have b: "sanitizeChannels (opt_channels opts) = Inr chs \<and> ch \<in> set chs
          \<and> \<not> channel_hasListener inp ch ev cb \<longrightarrow>
        hasListener inp ev cb opts \<noteq> Inr True"
    using hasListener_True [OF assms, of inp cb opts] by (auto simp: list_all_iff)
  have c: "intact inp \<and> opt_channels opts \<noteq> None
          \<and> sanitizeChannels (opt_channels opts) = Inr chs \<longrightarrow>
        hasListener inp ev cb opts =
          Inr (list_all (\<lambda>ch. channel_hasListener inp ch ev cb) chs)"
    using hasListener_intact [OF assms] by blast
  have d: "hasListener (snd (addListener inp ''noteon'' cb (added\<lparr>opt_channels := Some [1, 3]\<rparr>)))
          ''noteon'' cb (asked\<lparr>opt_channels := Some [1, 2, 3]\<rparr>) = Inr False"
    if i: "intact inp" and n: "\<not> channel_hasListener inp 2 ''noteon'' cb"
  proof -
    let ?oa = "added\<lparr>opt_channels := Some [1, 3]\<rparr>"
    let ?inp = "snd (addListener inp ''noteon'' cb ?oa)"
    have s1: "sanitizeChannels (opt_channels (default_channels ?oa)) = Inr [1, 3]"
      by (simp add: sanitizeChannels_def default_channels_def)
    have s2: "sanitizeChannels (opt_channels (asked\<lparr>opt_channels := Some [1, 2, 3]\<rparr>)) = Inr [1, 2, 3]"
      by (simp add: sanitizeChannels_def)
    have "\<not> channel_hasListener ?inp 2 ''noteon'' cb"
      using channel_hasListener_added [OF i noteon_EVENTS s1, of cb 2] n by simp
    then show ?thesis
      using hasListener_intact [OF noteon_EVENTS intact_addListener [OF i noteon_EVENTS s1] _ s2, of cb]
      by simp
  qed
  from a b c d show ?thesis by blast
qed

theorem hasListener_conjunctive_witness:
  "''noteon'' \<in> set EVENTS
   \<and> intact (new_Input test_port True)
   \<and> \<not> channel_hasListener (new_Input test_port True) 2 ''noteon'' 7
   \<and> hasListener
        (snd (addListener (new_Input test_port True) ''noteon'' 7
                (no_options\<lparr>opt_channels := Some [1, 3]\<rparr>)))
        ''noteon'' 7 (no_options\<lparr>opt_channels := Some [1, 2, 3]\<rparr>) = Inr False
   \<and> hasListener
        (snd (addListener (new_Input test_port True) ''noteon'' 7
                (no_options\<lparr>opt_channels := Some [1, 3]\<rparr>)))
        ''noteon'' 7 (no_options\<lparr>opt_channels := Some [1, 3]\<rparr>) = Inr True"
proof -
  let ?o = "no_options\<lparr>opt_channels := Some [1, 3]\<rparr>"
  let ?inp = "snd (addListener (new_Input test_port True) ''noteon'' 7 ?o)"
  have n: "\<not> channel_hasListener (new_Input test_port True) 2 ''noteon'' 7"
    by (simp add: channel_hasListener_def new_Input_def new_InputChannel_def
        registry_hasListener_def)
  have s1: "sanitizeChannels (opt_channels (default_channels ?o)) = Inr [1, 3]"
    by (simp add: sanitizeChannels_def default_channels_def)
  have s2: "sanitizeChannels (opt_channels ?o) = Inr [1, 3]"
    by (simp add: sanitizeChannels_def)
  have i: "intact ?inp" by (rule intact_addListener [OF intact_new noteon_EVENTS s1])
  have h: "list_all (\<lambda>ch. channel_hasListener ?inp ch ''noteon'' 7) [1, 3]"
    using channel_hasListener_added [OF intact_new noteon_EVENTS s1, of test_port True 7]
      intact_channel [OF intact_new, of _ test_port True]
    by simp
  have f: "hasListener ?inp ''noteon'' 7 (no_options\<lparr>opt_channels := Some [1, 2, 3]\<rparr>) = Inr False"
    using hasListener_conjunctive [OF noteon_EVENTS, where inp = "new_Input test_port True"
        and cb = 7 and added = no_options and asked = no_options and opts = no_options and chs = "[]"
        and ch = 0] intact_new n
    by blast
  have t: "hasListener ?inp ''noteon'' 7 ?o = Inr True"
    using hasListener_conjunctive [OF noteon_EVENTS, where inp = ?inp
        and cb = 7 and added = no_options and asked = no_options and opts = ?o and chs = "[1, 3]"
        and ch = 0] i s2 h
    by simp
  from noteon_EVENTS intact_new n f t show ?thesis by blast
qed


lemma removeListener_no_event:
  assumes s: "sanitizeChannels (opt_channels (default_channels opts)) = Inr chs"
  shows "removeListener inp None cb opts =
     (None, inp\<lparr>channels := removeListener_all_each (channels inp) chs, listeners := []\<rparr>)"
  using s by (simp add: removeListener_def Let_def registry_removeListener_def)

text \<open>
  Claim C7, as the code has it. \<open>removeListener\<close> with no event name, whatever the
  callback, raises nothing when the channels resolve, removes every listener of the
  port's own registry and every listener of each channel of the resolved set, and leaves
  the other channels as they were. When \<open>options.channels\<close> is omitted the resolved
  set is all 16 channels, so every channel registry is empty afterwards.
\<close>

theorem removeListener_without_event:
  "(sanitizeChannels (opt_channels (default_channels opts)) = Inr chs \<longrightarrow>
      fst (removeListener inp None cb opts) = None
      \<and> listeners (snd (removeListener inp None cb opts)) = []
      \<and> channels (snd (removeListener inp None cb opts)) x =
          (if x \<in> set chs then map_option (\<lambda>c. c\<lparr>ch_listeners := []\<rparr>) (channels inp x)
           else channels inp x))
   \<and> (opt_channels opts = None \<longrightarrow>
      fst (removeListener inp None cb opts) = None
      \<and> listeners (snd (removeListener inp None cb opts)) = []
      \<and> (1 \<le> x \<and> x \<le> 16 \<and> channels (snd (removeListener inp None cb opts)) x = Some c \<longrightarrow>
           ch_listeners c = []))"
proof -
  have a: "fst (removeListener inp None cb opts) = None
      \<and> listeners (snd (removeListener inp None cb opts)) = []
      \<and> channels (snd (removeListener inp None cb opts)) x =
          (if x \<in> set chs then map_option (\<lambda>c. c\<lparr>ch_listeners := []\<rparr>) (channels inp x)
           else channels inp x)"
    if s: "sanitizeChannels (opt_channels (default_channels opts)) = Inr chs" for chs
    unfolding removeListener_no_event [OF s]
    by (simp add: removeListener_all_each_at)
  have b: "fst (removeListener inp None cb opts) = None
      \<and> listeners (snd (removeListener inp None cb opts)) = []
      \<and> (1 \<le> x \<and> x \<le> 16 \<and> channels (snd (removeListener inp None cb opts)) x = Some c \<longrightarrow>
           ch_listeners c = [])"
    if n: "opt_channels opts = None"
  proof -
    have s: "sanitizeChannels (opt_channels (default_channels opts)) =
        Inr [1, 2, 3, 4, 5, 6, 7, 8, 9, 10, 11, 12, 13, 14, 15, 16]"
      using n by (simp add: sanitizeChannels_def MIDI_CHANNEL_NUMBERS_def default_channels_def)
    have m: "x \<in> set [1, 2, 3, 4, 5, 6, 7, 8, 9, 10, 11, 12, 13, 14, 15, 16 :: nat]"
      if "1 \<le> x" "x \<le> 16"
      using that by simp arith
    show ?thesis using a [OF s] m by auto
  qed
  from a b show ?thesis by blast
qed

theorem removeListener_without_event_witness:
  "opt_channels no_options = None
   \<and> fst (removeListener
            (snd (addListener (new_Input test_port True) ''noteon'' 7
                    (no_options\<lparr>opt_channels := Some [2]\<rparr>)))
            None None no_options) = None
   \<and> map_option ch_listeners
        (channels
           (snd (removeListener
                   (snd (addListener (new_Input test_port True) ''noteon'' 7
                           (no_options\<lparr>opt_channels := Some [2]\<rparr>)))
                   None None no_options)) 2) = Some []
   \<and> sanitizeChannels (opt_channels (default_channels (no_options\<lparr>opt_channels := Some [2]\<rparr>)))
       = Inr [2]
   \<and> map_option ch_listeners
        (channels
           (snd (removeListener
                   (snd (addListener (new_Input test_port True) ''noteon'' 7
                           (no_options\<lparr>opt_channels := Some [2]\<rparr>)))
                   None None (no_options\<lparr>opt_channels := Some [2]\<rparr>))) 2) = Some []"
proof -
  let ?o = "no_options\<lparr>opt_channels := Some [2]\<rparr>"
  let ?inp = "snd (addListener (new_Input test_port True) ''noteon'' 7 ?o)"
  have n: "opt_channels no_options = None" by (simp add: no_options_def)
  have s: "sanitizeChannels (opt_channels (default_channels ?o)) = Inr [2]"
    by (simp add: sanitizeChannels_def default_channels_def)
  have i: "intact ?inp" by (rule intact_addListener [OF intact_new noteon_EVENTS s])
  obtain c where c: "channels ?inp 2 = Some c"
    using intact_channel [OF i, of 2] by auto
  have a: "fst (removeListener ?inp None None no_options) = None"
    using removeListener_without_event [where inp = ?inp and opts = no_options
        and cb = None and x = 2] n by blast
  have b: "map_option ch_listeners (channels (snd (removeListener ?inp None None no_options)) 2)
      = Some []"
    using removeListener_without_event [where inp = ?inp and opts = no_options
        and cb = None and x = 2
        and chs = "[1, 2, 3, 4, 5, 6, 7, 8, 9, 10, 11, 12, 13, 14, 15, 16]"] n c
    by (simp add: sanitizeChannels_def MIDI_CHANNEL_NUMBERS_def default_channels_def)
  have d: "map_option ch_listeners (channels (snd (removeListener ?inp None None ?o)) 2)
      = Some []"
    using removeListener_without_event [where inp = ?inp and opts = ?o
        and cb = None and x = 2 and chs = "[2]"] s c
    by simp
  from n a b s d show ?thesis by blast
qed

text \<open>
  The claim as stated fails: with \<open>options.channels = [1]\<close> and no event name the call
  raises nothing and the listener of channel 2 stays.
\<close>

theorem removeListener_without_event_counterexample:
  "fst (removeListener
          (snd (addListener (new_Input test_port True) ''noteon'' 7
                  (no_options\<lparr>opt_channels := Some [2]\<rparr>)))
          None None (no_options\<lparr>opt_channels := Some [1]\<rparr>)) = None
   \<and> map_option ch_listeners
        (channels
           (snd (removeListener
                   (snd (addListener (new_Input test_port True) ''noteon'' 7
                           (no_options\<lparr>opt_channels := Some [2]\<rparr>)))
                   None None (no_options\<lparr>opt_channels := Some [1]\<rparr>))) 2) =
       Some [\<lparr>l_event = ''noteon'', l_target = ChannelEmitter 2, l_callback = 7,
              l_options = no_options\<lparr>opt_channels := Some [2]\<rparr>\<rparr>]"
proof -
  let ?o = "no_options\<lparr>opt_channels := Some [2]\<rparr>"
  let ?inp = "snd (addListener (new_Input test_port True) ''noteon'' 7 ?o)"
  have s: "sanitizeChannels (opt_channels (default_channels ?o)) = Inr [2]"
    by (simp add: sanitizeChannels_def default_channels_def)
  have s1: "sanitizeChannels (opt_channels (default_channels (no_options\<lparr>opt_channels := Some [1]\<rparr>)))
      = Inr [1]"
    by (simp add: sanitizeChannels_def default_channels_def)
  have c: "channels ?inp 2 =
      Some \<lparr>number = 2, ch_listeners = [new_listener ''noteon'' 7 ?o 2]\<rparr>"
    using addListener_channels [OF intact_new noteon_EVENTS s, of test_port True 7 2]
    by (simp add: new_Input_def new_InputChannel_def default_channels_def)
  show ?thesis
    unfolding removeListener_no_event [OF s1]
    using c
    by (simp add: removeListener_all_each_at new_listener_def del: removeListener_all_each.simps)
qed

end
